theory Spec2Isabelle
  imports Complex_Main "HOL-Library.Product_Lexorder" "HOL-Library.List_Lexorder"
    "HOL-Library.Multiset"
begin

section \<open>Data model\<close>

text \<open>
  The tables of \<^verbatim>\<open>data_processor.py\<close> are pandas data frames. A frame is modelled by its
  column labels and its rows, every row a list of cells in column order. Python strings
  are sequences of code points, so a string is a list of natural numbers; a cell is a
  number, a text or the missing value (NaN). Numbers are the reals: the arithmetic of the
  source is read exactly, and rounding of the floating-point operations, infinities and
  NaN produced by arithmetic are outside the model. The column labels of one frame are
  taken to be pairwise distinct and every row to have one cell per column, as the pandas
  readers produce them.
\<close>

type_synonym pystr = "nat list"

text \<open>A pandas \<^verbatim>\<open>Timestamp\<close> read at the granularity of days: (year, month, day),
  ordered lexicographically.\<close>

type_synonym timestamp = "int \<times> int \<times> int"

definition year :: "timestamp \<Rightarrow> int" where
  "year t = fst t"

definition month :: "timestamp \<Rightarrow> int" where
  "month t = fst (snd t)"

definition day :: "timestamp \<Rightarrow> int" where
  "day t = snd (snd t)"

datatype cell = Num real | Str pystr | Missing

text \<open>A column label is a text or, after \<^verbatim>\<open>load_data\<close> has parsed it as a date, a
  timestamp.\<close>

datatype header = Label pystr | Period timestamp

record table =
  columns :: "header list"
  rows :: "cell list list"

text \<open>One row of \<^verbatim>\<open>chart_df\<close> (the dictionary appended to \<^verbatim>\<open>chart_data\<close>).\<close>

record achievement =
  ar_dept :: cell
  ar_month :: timestamp
  ar_actual :: real
  ar_target :: real
  ar_rate :: real

text \<open>The evaluation comment of a summary row; the source stores a text with an emoji,
  the model the four texts it can be (the last one is the empty text).\<close>

datatype comment = Improving | Declining | Flat | NoComment

text \<open>One row of \<^verbatim>\<open>summary_df\<close>.\<close>

record summary =
  ds_dept :: cell
  latest_rate :: "real option"
  fy_avg_rate :: "real option"
  six_month_avg_rate :: "real option"
  ds_comment :: comment
  profit_share :: real
  yoy_comparison :: "real option"

text \<open>The exceptions the modelled code can raise: \<^verbatim>\<open>columns[0]\<close> on a frame without
  columns, and the format code \<^verbatim>\<open>15s\<close> applied to a department name that is not a text.\<close>

datatype error = IndexError | FormatError

section \<open>Strings, cells and columns\<close>

definition lower_cp :: "nat \<Rightarrow> nat" where
  "lower_cp c = (if 65 \<le> c \<and> c \<le> 90 then c + 32 else c)"

text \<open>\<^verbatim>\<open>str.lower\<close>, read on the ASCII letters. The keywords searched below consist of
  the letters of "target" and "goal" and of two ideographs, and no code point outside
  ASCII has a lower-case form containing one of them.\<close>

definition lower :: "pystr \<Rightarrow> pystr" where
  "lower s = map lower_cp s"

text \<open>\<^verbatim>\<open>pat in s\<close>.\<close>

fun contains :: "pystr \<Rightarrow> pystr \<Rightarrow> bool" where
  "contains pat [] = (pat = [])"
| "contains pat (c # cs) = (if take (length pat) (c # cs) = pat then True else contains pat cs)"

text \<open>The three keywords: the two ideographs of "mokuhyou" (U+76EE U+6A19), "target"
  and "goal".\<close>

definition kw_mokuhyou :: pystr where
  "kw_mokuhyou = [30446, 27161]"

definition kw_target :: pystr where
  "kw_target = [116, 97, 114, 103, 101, 116]"

definition kw_goal :: pystr where
  "kw_goal = [103, 111, 97, 108]"

text \<open>The test of lines 95-96 on one column label. The text of a timestamp label
  (\<^verbatim>\<open>2024-01-01 00:00:00\<close>) has digits, dashes, colons and a blank only.\<close>

fun is_target_header :: "header \<Rightarrow> bool" where
  "is_target_header (Label s) =
     (if contains kw_mokuhyou (lower s) then True
      else if contains kw_target (lower s) then True
      else contains kw_goal (lower s))"
| "is_target_header (Period t) = False"

text \<open>\<^verbatim>\<open>.replace(',', '').replace(fullwidth comma, '')\<close>: both patterns are one code
  point long (44 and U+FF0C).\<close>

definition strip_separators :: "pystr \<Rightarrow> pystr" where
  "strip_separators s = filter (\<lambda>c. c \<noteq> 65292) (filter (\<lambda>c. c \<noteq> 44) s)"

text \<open>\<^verbatim>\<open>row[label]\<close> and \<^verbatim>\<open>row.get(label)\<close>: the cell under a column label; a label the
  row does not have gives the missing value.\<close>

definition row_get :: "header list \<Rightarrow> cell list \<Rightarrow> header \<Rightarrow> cell" where
  "row_get cols row label = (case map_of (zip cols row) label of Some c \<Rightarrow> c | None \<Rightarrow> Missing)"

fun index_of :: "'a list \<Rightarrow> 'a \<Rightarrow> nat" where
  "index_of [] x = 0"
| "index_of (y # ys) x = (if y = x then 0 else Suc (index_of ys x))"

definition row_set :: "header list \<Rightarrow> cell list \<Rightarrow> header \<Rightarrow> cell \<Rightarrow> cell list" where
  "row_set cols row label v = row[index_of cols label := v]"

definition column_values :: "table \<Rightarrow> header \<Rightarrow> cell list" where
  "column_values df label = map (\<lambda>row. row_get (columns df) row label) (rows df)"

fun is_text :: "cell \<Rightarrow> bool" where
  "is_text (Str s) = True"
| "is_text c = False"

text \<open>\<^verbatim>\<open>pd.api.types.is_numeric_dtype\<close>: a column is numeric when it holds no text.\<close>

definition is_numeric_dtype :: "cell list \<Rightarrow> bool" where
  "is_numeric_dtype col = (filter is_text col = [])"

text \<open>Elementwise \<^verbatim>\<open>==\<close> of pandas: the missing value equals nothing.\<close>

fun cell_eq :: "cell \<Rightarrow> cell \<Rightarrow> bool" where
  "cell_eq Missing c = False"
| "cell_eq (Num x) c = (c = Num x)"
| "cell_eq (Str s) c = (c = Str s)"

section \<open>Timestamps\<close>

definition is_leap :: "int \<Rightarrow> bool" where
  "is_leap y = (if y mod 400 = 0 then True else if y mod 100 = 0 then False else y mod 4 = 0)"

definition days_in_month :: "int \<Rightarrow> int \<Rightarrow> int" where
  "days_in_month y m =
     (if m = 2 then (if is_leap y then 29 else 28)
      else if m = 4 then 30 else if m = 6 then 30 else if m = 9 then 30
      else if m = 11 then 30 else 31)"

text \<open>\<^verbatim>\<open>t - relativedelta(years=ys, months=ms)\<close> of dateutil for non-negative arguments:
  the months beyond eleven are carried into the years, the month is moved back with a
  borrow from the year, and the day is clipped to the length of the new month.\<close>

definition relativedelta_sub :: "timestamp \<Rightarrow> nat \<Rightarrow> nat \<Rightarrow> timestamp" where
  "relativedelta_sub t ys ms =
     (let y = year t - int ys - int (ms div 12);
          m = month t - int (ms mod 12);
          y' = (if m < 1 then y - 1 else y);
          m' = (if m < 1 then m + 12 else m)
      in (y', m', min (days_in_month y' m') (day t)))"

section \<open>The metrics engine: \<^verbatim>\<open>process_data\<close>\<close>

subsection \<open>Column roles\<close>

text \<open>Lines 89-104: the first column after column 0 whose label holds a keyword, else
  column 1; nothing when the frame has fewer than two columns.\<close>

definition target_value_col :: "header list \<Rightarrow> header option" where
  "target_value_col cols =
     (if length cols > 1 then
        (case find is_target_header (tl cols) of
           Some c \<Rightarrow> Some c
         | None \<Rightarrow> Some (cols ! 1))
      else None)"

text \<open>Lines 115-118 on one cell: \<^verbatim>\<open>astype(str)\<close>, removal of the separators and
  \<^verbatim>\<open>pd.to_numeric(errors='coerce')\<close>. The parser of pandas is the parameter
  \<open>to_numeric\<close>; a number printed and parsed again is the same number, and the text
  of the missing value parses to the missing value.\<close>

fun coerce_cell :: "(pystr \<Rightarrow> real option) \<Rightarrow> cell \<Rightarrow> cell" where
  "coerce_cell to_numeric (Num x) = Num x"
| "coerce_cell to_numeric Missing = Missing"
| "coerce_cell to_numeric (Str s) =
     (case to_numeric (strip_separators s) of Some x \<Rightarrow> Num x | None \<Rightarrow> Missing)"

text \<open>Lines 113-118: the assignment \<^verbatim>\<open>target_df[target_value_col] = ...\<close> writes into
  the frame the caller passed; the frame after it is returned.\<close>

definition coerce_target :: "(pystr \<Rightarrow> real option) \<Rightarrow> header \<Rightarrow> table \<Rightarrow> table" where
  "coerce_target to_numeric tvc df =
     (if is_numeric_dtype (column_values df tvc) then df
      else df\<lparr>rows := map (\<lambda>row. row_set (columns df) row tvc
                                  (coerce_cell to_numeric (row_get (columns df) row tvc)))
                         (rows df)\<rparr>)"

fun period_of :: "header \<Rightarrow> timestamp option" where
  "period_of (Period t) = Some t"
| "period_of (Label s) = None"

text \<open>Lines 123-124: the timestamp labels, sorted by (year, month); Python's
  \<^verbatim>\<open>sorted\<close> is stable.\<close>

definition date_cols :: "table \<Rightarrow> timestamp list" where
  "date_cols df = sort_key (\<lambda>t. (year t, month t)) (List.map_filter period_of (columns df))"

subsection \<open>Achievement rates\<close>

text \<open>Lines 155-172 for one month column. \<open>to_float\<close> is Python's \<^verbatim>\<open>float\<close> on a
  text; \<open>None\<close> is the exception that makes the loop continue.\<close>

definition cell_records ::
  "(pystr \<Rightarrow> real option) \<Rightarrow> cell \<Rightarrow> real \<Rightarrow> timestamp \<Rightarrow> cell \<Rightarrow> achievement list" where
  "cell_records to_float dept_name target_value month_col actual_cell =
     (case actual_cell of
        Missing \<Rightarrow> []
      | Num a \<Rightarrow>
          [\<lparr>ar_dept = dept_name, ar_month = month_col, ar_actual = a,
            ar_target = target_value, ar_rate = (a / target_value) * 100\<rparr>]
      | Str s \<Rightarrow>
          (case to_float (strip_separators s) of
             None \<Rightarrow> []
           | Some a \<Rightarrow>
               [\<lparr>ar_dept = dept_name, ar_month = month_col, ar_actual = a,
                 ar_target = target_value, ar_rate = (a / target_value) * 100\<rparr>]))"

text \<open>Lines 139-172 for one row of the target frame.\<close>

definition target_row_records ::
  "(pystr \<Rightarrow> real option) \<Rightarrow> table \<Rightarrow> table \<Rightarrow> header \<Rightarrow> header \<Rightarrow> header \<Rightarrow>
   timestamp list \<Rightarrow> cell list \<Rightarrow> achievement list" where
  "target_row_records to_float target_df actual_df dept_col_target tvc dept_col_actual dcols
       target_row =
     (let dept_name = row_get (columns target_df) target_row dept_col_target;
          target_value = row_get (columns target_df) target_row tvc;
          actual_rows = filter (\<lambda>r. cell_eq (row_get (columns actual_df) r dept_col_actual)
                                        dept_name) (rows actual_df)
      in case actual_rows of
           [] \<Rightarrow> []
         | actual_row # rest \<Rightarrow>
             (case target_value of
                Num tv \<Rightarrow>
                  (if tv > 0 then
                     concat (map (\<lambda>month_col.
                                    cell_records to_float dept_name tv month_col
                                      (row_get (columns actual_df) actual_row (Period month_col)))
                                 dcols)
                   else [])
              | Str s \<Rightarrow> []
              | Missing \<Rightarrow> []))"

definition chart_data ::
  "(pystr \<Rightarrow> real option) \<Rightarrow> table \<Rightarrow> table \<Rightarrow> header \<Rightarrow> header \<Rightarrow> header \<Rightarrow>
   timestamp list \<Rightarrow> achievement list" where
  "chart_data to_float target_df actual_df dept_col_target tvc dept_col_actual dcols =
     concat (map (target_row_records to_float target_df actual_df dept_col_target tvc
                    dept_col_actual dcols)
                 (rows target_df))"

subsection \<open>Summary per department\<close>

text \<open>\<^verbatim>\<open>chart_df['month'].max()\<close>; called on a frame with at least one row only.\<close>

definition most_recent_month :: "achievement list \<Rightarrow> timestamp" where
  "most_recent_month chart = fold max (map ar_month (tl chart)) (ar_month (hd chart))"

definition total_recent_profit :: "achievement list \<Rightarrow> timestamp \<Rightarrow> real" where
  "total_recent_profit chart mr = sum_list (map ar_actual (filter (\<lambda>r. ar_month r = mr) chart))"

text \<open>The order in which \<^verbatim>\<open>groupby\<close> lists its keys: numbers before texts, each in
  ascending order.\<close>

fun cell_key :: "cell \<Rightarrow> nat \<times> real \<times> pystr" where
  "cell_key (Num x) = (0, x, [])"
| "cell_key (Str s) = (1, 0, s)"
| "cell_key Missing = (2, 0, [])"

definition groupby_dept :: "achievement list \<Rightarrow> (cell \<times> achievement list) list" where
  "groupby_dept chart =
     map (\<lambda>k. (k, filter (\<lambda>r. ar_dept r = k) chart))
         (sort_key cell_key (remdups (map ar_dept chart)))"

text \<open>Modelled from the spec: \<^verbatim>\<open>DataFrame.sort_values\<close> is pandas code, not code of
  this repository. The spec has the records of a department "sorted by period ascending"
  and the summary "sorted descending by latest_rate; departments with missing latest_rate
  sort after all departments with a value (stable otherwise)". Ascending: a stable sort.
  Descending with the missing values last, the way pandas arranges it: the rows with a
  value are reversed, sorted ascending and reversed again, and the rows without a value
  follow in their order.\<close>

definition sort_values_asc :: "('a \<Rightarrow> 'k::linorder) \<Rightarrow> 'a list \<Rightarrow> 'a list" where
  "sort_values_asc f xs = sort_key f xs"

definition sort_values_desc_na_last :: "('a \<Rightarrow> real option) \<Rightarrow> 'a list \<Rightarrow> 'a list" where
  "sort_values_desc_na_last f xs =
     rev (sort_key (\<lambda>x. the (f x)) (rev (filter (\<lambda>x. f x \<noteq> None) xs)))
     @ filter (\<lambda>x. f x = None) xs"

definition mean :: "real list \<Rightarrow> real option" where
  "mean xs = (if xs = [] then None else Some (sum_list xs / real (length xs)))"

definition recent_rate_row :: "achievement list \<Rightarrow> timestamp \<Rightarrow> achievement list" where
  "recent_rate_row grp mr = filter (\<lambda>r. ar_month r = mr) grp"

definition recent_rate :: "achievement list \<Rightarrow> timestamp \<Rightarrow> real option" where
  "recent_rate grp mr =
     (case recent_rate_row grp mr of [] \<Rightarrow> None | r # rs \<Rightarrow> Some (ar_rate r))"

definition recent_actual :: "achievement list \<Rightarrow> timestamp \<Rightarrow> real" where
  "recent_actual grp mr =
     (case recent_rate_row grp mr of [] \<Rightarrow> 0 | r # rs \<Rightarrow> ar_actual r)"

definition fy_start_year :: "timestamp \<Rightarrow> int" where
  "fy_start_year today = (if month today \<ge> 4 then year today else year today - 1)"

definition fy_start_date :: "timestamp \<Rightarrow> timestamp" where
  "fy_start_date today = (fy_start_year today, 4, 1)"

definition fy_df :: "achievement list \<Rightarrow> timestamp \<Rightarrow> achievement list" where
  "fy_df grp today = filter (\<lambda>r. ar_month r \<ge> fy_start_date today) grp"

definition six_month_df :: "achievement list \<Rightarrow> timestamp \<Rightarrow> achievement list" where
  "six_month_df grp mr =
     filter (\<lambda>r. ar_month r \<ge> relativedelta_sub mr 0 5 \<and> ar_month r \<le> mr) grp"

definition last_fy_start_date :: "timestamp \<Rightarrow> timestamp" where
  "last_fy_start_date today = (fy_start_year today - 1, 4, 1)"

definition last_fy_end_month :: "timestamp \<Rightarrow> timestamp" where
  "last_fy_end_month mr = relativedelta_sub mr 1 0"

definition current_fy_actual :: "achievement list \<Rightarrow> timestamp \<Rightarrow> real" where
  "current_fy_actual grp today = sum_list (map ar_actual (fy_df grp today))"

definition last_fy_df :: "achievement list \<Rightarrow> timestamp \<Rightarrow> timestamp \<Rightarrow> achievement list" where
  "last_fy_df grp today mr =
     filter (\<lambda>r. ar_month r \<ge> last_fy_start_date today \<and> ar_month r \<le> last_fy_end_month mr)
            grp"

definition last_fy_actual :: "achievement list \<Rightarrow> timestamp \<Rightarrow> timestamp \<Rightarrow> real" where
  "last_fy_actual grp today mr = sum_list (map ar_actual (last_fy_df grp today mr))"

definition evaluation :: "real option \<Rightarrow> real option \<Rightarrow> comment" where
  "evaluation rr six =
     (case rr of
        None \<Rightarrow> NoComment
      | Some r \<Rightarrow>
          (case six of
             None \<Rightarrow> NoComment
           | Some a \<Rightarrow>
               (if r - a > 5 then Improving
                else if r - a < - 5 then Declining
                else Flat)))"

text \<open>Lines 199-259, the body of the loop over the groups: the dictionary appended to
  \<^verbatim>\<open>summary_data\<close> for a department and its rows, already sorted by month.\<close>

definition summary_row ::
  "timestamp \<Rightarrow> timestamp \<Rightarrow> real \<Rightarrow> cell \<Rightarrow> achievement list \<Rightarrow> summary" where
  "summary_row today mr total_profit dept_name grp =
     (let rr = recent_rate grp mr;
          ra = recent_actual grp mr;
          share = (if total_profit > 0 then (ra / total_profit) * 100 else 0);
          six = mean (map ar_rate (six_month_df grp mr));
          cur = current_fy_actual grp today;
          lst = last_fy_actual grp today mr
      in \<lparr>ds_dept = dept_name, latest_rate = rr,
          fy_avg_rate = mean (map ar_rate (fy_df grp today)),
          six_month_avg_rate = six, ds_comment = evaluation rr six,
          profit_share = share,
          yoy_comparison = (if lst > 0 then Some ((cur / lst) * 100) else None)\<rparr>)"

text \<open>One round of the loop. The debug line 212 formats the department name with
  \<^verbatim>\<open>15s\<close> when the department has a row in the latest month; this raises for a name
  that is a number.\<close>

definition summarise ::
  "timestamp \<Rightarrow> timestamp \<Rightarrow> real \<Rightarrow> cell \<times> achievement list \<Rightarrow> error + summary" where
  "summarise today mr total_profit kg =
     (let dept_name = fst kg;
          grp = sort_values_asc ar_month (snd kg)
      in if recent_rate_row grp mr = [] then
           Inr (summary_row today mr total_profit dept_name grp)
         else if is_text dept_name then
           Inr (summary_row today mr total_profit dept_name grp)
         else Inl FormatError)"

fun summary_data ::
  "timestamp \<Rightarrow> timestamp \<Rightarrow> real \<Rightarrow> (cell \<times> achievement list) list \<Rightarrow> error + summary list" where
  "summary_data today mr total_profit [] = Inr []"
| "summary_data today mr total_profit (kg # kgs) =
     (case summarise today mr total_profit kg of
        Inl e \<Rightarrow> Inl e
      | Inr s \<Rightarrow>
          (case summary_data today mr total_profit kgs of
             Inl e \<Rightarrow> Inl e
           | Inr ss \<Rightarrow> Inr (s # ss)))"

subsection \<open>The whole function\<close>

text \<open>The result of a call: a raised exception, or the pair
  (\<^verbatim>\<open>summary_df\<close>, \<^verbatim>\<open>chart_df\<close>); the pair of empty frames is \<open>([], [])\<close>.\<close>

type_synonym outcome = "error + (summary list \<times> achievement list)"

text \<open>The state of a call: the two frames the caller passed, as they are when the call
  ends, and the result.\<close>

record run =
  target_after :: table
  actual_after :: table
  result :: outcome

text \<open>Lines 68-275 for two frames that are not \<^verbatim>\<open>None\<close>.\<close>

definition process_data ::
  "(pystr \<Rightarrow> real option) \<Rightarrow> (pystr \<Rightarrow> real option) \<Rightarrow> table \<Rightarrow> table \<Rightarrow> timestamp \<Rightarrow> run" where
  "process_data to_numeric to_float target_df actual_df today =
     (case columns target_df of
        [] \<Rightarrow> \<lparr>target_after = target_df, actual_after = actual_df, result = Inl IndexError\<rparr>
      | dept_col_target # tcs \<Rightarrow>
     (case columns actual_df of
        [] \<Rightarrow> \<lparr>target_after = target_df, actual_after = actual_df, result = Inl IndexError\<rparr>
      | dept_col_actual # acs \<Rightarrow>
     (case target_value_col (columns target_df) of
        None \<Rightarrow> \<lparr>target_after = target_df, actual_after = actual_df, result = Inr ([], [])\<rparr>
      | Some tvc \<Rightarrow>
          (let target_df' = coerce_target to_numeric tvc target_df;
               dcols = date_cols actual_df;
               chart = chart_data to_float target_df' actual_df dept_col_target tvc
                         dept_col_actual dcols;
               mr = most_recent_month chart
           in if dcols = [] then
                \<lparr>target_after = target_df', actual_after = actual_df, result = Inr ([], [])\<rparr>
              else if chart = [] then
                \<lparr>target_after = target_df', actual_after = actual_df, result = Inr ([], [])\<rparr>
              else
                \<lparr>target_after = target_df', actual_after = actual_df,
                 result =
                   (case summary_data today mr (total_recent_profit chart mr)
                           (groupby_dept chart) of
                      Inl e \<Rightarrow> Inl e
                    | Inr ss \<Rightarrow> Inr (sort_values_desc_na_last latest_rate ss, chart))\<rparr>))))"

text \<open>Lines 68-69: a frame that is \<^verbatim>\<open>None\<close> gives the pair of empty frames.\<close>

definition process_data_opt ::
  "(pystr \<Rightarrow> real option) \<Rightarrow> (pystr \<Rightarrow> real option) \<Rightarrow> table option \<Rightarrow> table option \<Rightarrow>
   timestamp \<Rightarrow> outcome" where
  "process_data_opt to_numeric to_float target_df actual_df today =
     (case target_df of
        None \<Rightarrow> Inr ([], [])
      | Some t \<Rightarrow>
          (case actual_df of
             None \<Rightarrow> Inr ([], [])
           | Some a \<Rightarrow> result (process_data to_numeric to_float t a today)))"

text \<open>The rows of \<^verbatim>\<open>summary_data\<close> before the sort of line 264, and the rows of one
  department as the loop of line 198 sees them (lines 198-199).\<close>

definition summary_rows :: "timestamp \<Rightarrow> achievement list \<Rightarrow> summary list" where
  "summary_rows today chart =
     map (\<lambda>kg. summary_row today (most_recent_month chart)
                  (total_recent_profit chart (most_recent_month chart))
                  (fst kg) (sort_values_asc ar_month (snd kg)))
         (groupby_dept chart)"

definition dept_group :: "achievement list \<Rightarrow> cell \<Rightarrow> achievement list" where
  "dept_group chart d = sort_values_asc ar_month (filter (\<lambda>r. ar_dept r = d) chart)"

section \<open>The export adapter: \<^verbatim>\<open>gross_profit_metrics_exporter.py\<close>\<close>

text \<open>\<^verbatim>\<open>pd.to_datetime\<close> on a value that is a timestamp already.\<close>

definition to_datetime :: "timestamp \<Rightarrow> timestamp" where
  "to_datetime t = t"

text \<open>The assignment \<^verbatim>\<open>chart_df['month'] = pd.to_datetime(chart_df['month'])\<close>, which
  writes into the frame the caller passed.\<close>

definition assign_month :: "achievement list \<Rightarrow> achievement list" where
  "assign_month chart = map (\<lambda>r. r\<lparr>ar_month := to_datetime (ar_month r)\<rparr>) chart"

record period_info =
  start_date :: timestamp
  end_date :: timestamp

text \<open>\<^verbatim>\<open>_calculate_period\<close>: the frame after the call and the period.\<close>

definition calculate_period ::
  "timestamp \<Rightarrow> achievement list \<Rightarrow> achievement list \<times> period_info" where
  "calculate_period analysis_date chart =
     (if chart = [] then
        (chart, \<lparr>start_date = analysis_date, end_date = analysis_date\<rparr>)
      else
        (let chart' = assign_month chart;
             months = map ar_month chart'
         in (chart', \<lparr>start_date = fold min (tl months) (hd months),
                      end_date = fold max (tl months) (hd months)\<rparr>)))"

text \<open>\<^verbatim>\<open>Series.nlargest(n)\<close>: the \<open>n\<close> largest values, repeated values counted as
  often as they occur, largest first.\<close>

definition nlargest :: "nat \<Rightarrow> timestamp list \<Rightarrow> timestamp list" where
  "nlargest n xs = take n (rev (sort xs))"

text \<open>Line 337, \<^verbatim>\<open>chart_df['month'].nlargest(3).min()\<close>, on a frame with a row.\<close>

definition latest_3_months :: "achievement list \<Rightarrow> timestamp" where
  "latest_3_months chart =
     (let top = nlargest 3 (map ar_month chart) in fold min (tl top) (hd top))"

definition recent_data :: "achievement list \<Rightarrow> achievement list" where
  "recent_data chart = filter (\<lambda>r. ar_month r \<ge> latest_3_months chart) chart"

text \<open>\<^verbatim>\<open>Series.std\<close> (the sample standard deviation) and \<^verbatim>\<open>Series.mean\<close>.\<close>

definition series_mean :: "real list \<Rightarrow> real" where
  "series_mean xs = sum_list xs / real (length xs)"

definition series_std :: "real list \<Rightarrow> real" where
  "series_std xs =
     sqrt (sum_list (map (\<lambda>x. (x - series_mean xs) ^ 2) xs) / (real (length xs) - 1))"

text \<open>\<^verbatim>\<open>round(x, 2)\<close>: to two decimals, a tie to the even neighbour.\<close>

definition round_half_even :: "real \<Rightarrow> int" where
  "round_half_even x =
     (if x - of_int \<lfloor>x\<rfloor> < 1 / 2 then \<lfloor>x\<rfloor>
      else if x - of_int \<lfloor>x\<rfloor> > 1 / 2 then \<lfloor>x\<rfloor> + 1
      else if even \<lfloor>x\<rfloor> then \<lfloor>x\<rfloor>
      else \<lfloor>x\<rfloor> + 1)"

definition round2 :: "real \<Rightarrow> real" where
  "round2 x = of_int (round_half_even (x * 100)) / 100"

text \<open>Lines 336-361 of \<^verbatim>\<open>_calculate_trend_metrics\<close>: the value of the stability
  metric, or nothing when the metric is not emitted.\<close>

definition stability_metric :: "achievement list \<Rightarrow> real option" where
  "stability_metric chart =
     (if chart = [] then None
      else if recent_data chart = [] then None
      else if length (recent_data chart) > 1 then
        Some (round2 ((series_std (map ar_rate (recent_data chart))
                        / series_mean (map ar_rate (recent_data chart))) * 100))
      else None)"

text \<open>\<^verbatim>\<open>_calculate_trend_metrics\<close>: the frame after the call (line 334 assigns the month
  column again) and the stability metric. The metrics per department that the function
  also emits read the frame and are not modelled.\<close>

definition calculate_trend_metrics ::
  "achievement list \<Rightarrow> achievement list \<times> real option" where
  "calculate_trend_metrics chart =
     (if chart = [] then (chart, None)
      else (assign_month chart, stability_metric (assign_month chart)))"

record export_run =
  summary_after :: "summary list"
  chart_after :: "achievement list"
  period :: period_info
  stability :: "real option"

text \<open>\<^verbatim>\<open>export_metrics_csv\<close>, as far as it touches the two frames it is given:
  \<^verbatim>\<open>_calculate_period\<close> and \<^verbatim>\<open>_calculate_trend_metrics\<close> assign the month column of
  \<^verbatim>\<open>chart_df\<close>; \<^verbatim>\<open>_calculate_overall_metrics\<close> and \<^verbatim>\<open>_calculate_department_metrics\<close>
  read \<^verbatim>\<open>summary_df\<close> only.\<close>

definition export_metrics_csv ::
  "summary list \<Rightarrow> achievement list \<Rightarrow> timestamp \<Rightarrow> export_run" where
  "export_metrics_csv summary_df chart_df analysis_date =
     (let cp = calculate_period analysis_date chart_df;
          tm = calculate_trend_metrics (fst cp)
      in \<lparr>summary_after = summary_df, chart_after = fst tm, period = snd cp,
          stability = snd tm\<rparr>)"

section \<open>The statements of the specification\<close>

text \<open>The global latest period: the maximum over all achievement records.\<close>

definition global_latest_period :: "achievement list \<Rightarrow> timestamp" where
  "global_latest_period chart = Max (set (map ar_month chart))"


text \<open>The fiscal-year windows in the words of the specification.\<close>

definition spec_fy_start :: "timestamp \<Rightarrow> timestamp" where
  "spec_fy_start today = ((if month today \<ge> 4 then year today else year today - 1), 4, 1)"

definition spec_prior_fy_start :: "timestamp \<Rightarrow> timestamp" where
  "spec_prior_fy_start today = (year (spec_fy_start today) - 1, 4, 1)"

definition spec_current_fy_actual :: "achievement list \<Rightarrow> timestamp \<Rightarrow> cell \<Rightarrow> real" where
  "spec_current_fy_actual chart today d =
     sum_list (map ar_actual
       (filter (\<lambda>r. ar_dept r = d \<and> ar_month r \<ge> spec_fy_start today) chart))"

definition spec_prior_fy_actual :: "achievement list \<Rightarrow> timestamp \<Rightarrow> cell \<Rightarrow> real" where
  "spec_prior_fy_actual chart today d =
     sum_list (map ar_actual
       (filter (\<lambda>r. ar_dept r = d \<and> spec_prior_fy_start today \<le> ar_month r
                    \<and> ar_month r \<le> relativedelta_sub (global_latest_period chart) 0 12)
               chart))"

definition spec_yoy :: "achievement list \<Rightarrow> timestamp \<Rightarrow> cell \<Rightarrow> real option" where
  "spec_yoy chart today d =
     (if spec_prior_fy_actual chart today d > 0
      then Some (spec_current_fy_actual chart today d / spec_prior_fy_actual chart today d * 100)
      else None)"




text \<open>The department names of the target frame: its first column.\<close>

definition target_departments :: "table \<Rightarrow> cell list" where
  "target_departments df = column_values df (hd (columns df))"

text \<open>The records in the three most recent distinct periods.\<close>

definition latest_distinct_periods :: "nat \<Rightarrow> achievement list \<Rightarrow> timestamp list" where
  "latest_distinct_periods n chart = take n (rev (sort (remdups (map ar_month chart))))"

definition records_in_latest_periods :: "achievement list \<Rightarrow> achievement list" where
  "records_in_latest_periods chart =
     filter (\<lambda>r. ar_month r \<in> set (latest_distinct_periods 3 chart)) chart"

section \<open>Concrete inputs\<close>

definition str :: "string \<Rightarrow> pystr" where
  "str s = map of_char s"

text \<open>A text of decimal digits read as a number, as both \<^verbatim>\<open>float\<close> and
  \<^verbatim>\<open>pd.to_numeric\<close> read it; it stands for the two parsers in the examples.\<close>

definition plain_number :: "pystr \<Rightarrow> real option" where
  "plain_number s =
     (if s = [] then None
      else if list_all (\<lambda>c. 48 \<le> c \<and> c \<le> 57) s
      then Some (real (foldl (\<lambda>n c. 10 * n + (c - 48)) 0 s))
      else None)"

text \<open>The scenario of the specification: targets A = 100, B = 200; actuals
  A = 50, 120 and B = 200, 180 in 2024-01 and 2024-02.\<close>

definition scenario_target :: table where
  "scenario_target =
     \<lparr>columns = [Label (str ''dept''), Label (str ''goal'')],
      rows = [[Str (str ''A''), Num 100], [Str (str ''B''), Num 200]]\<rparr>"

definition scenario_actual :: table where
  "scenario_actual =
     \<lparr>columns = [Label (str ''dept''), Period (2024, 1, 1), Period (2024, 2, 1)],
      rows = [[Str (str ''A''), Num 50, Num 120], [Str (str ''B''), Num 200, Num 180]]\<rparr>"

definition scenario_chart :: "achievement list" where
  "scenario_chart =
     [\<lparr>ar_dept = Str (str ''A''), ar_month = (2024, 1, 1), ar_actual = 50,
       ar_target = 100, ar_rate = 50\<rparr>,
      \<lparr>ar_dept = Str (str ''A''), ar_month = (2024, 2, 1), ar_actual = 120,
       ar_target = 100, ar_rate = 120\<rparr>,
      \<lparr>ar_dept = Str (str ''B''), ar_month = (2024, 1, 1), ar_actual = 200,
       ar_target = 200, ar_rate = 100\<rparr>,
      \<lparr>ar_dept = Str (str ''B''), ar_month = (2024, 2, 1), ar_actual = 180,
       ar_target = 200, ar_rate = 90\<rparr>]"

definition summary_A :: summary where
  "summary_A =
     \<lparr>ds_dept = Str (str ''A''), latest_rate = Some 120, fy_avg_rate = Some 85,
      six_month_avg_rate = Some 85, ds_comment = Improving, profit_share = 40,
      yoy_comparison = None\<rparr>"

definition summary_B :: summary where
  "summary_B =
     \<lparr>ds_dept = Str (str ''B''), latest_rate = Some 90, fy_avg_rate = Some 95,
      six_month_avg_rate = Some 95, ds_comment = Flat, profit_share = 60,
      yoy_comparison = None\<rparr>"

definition scenario_summary :: "summary list" where
  "scenario_summary = [summary_A, summary_B]"

text \<open>A second run of the same targets: a month of the year before, department B
  without a value in the latest month, and a department C that has no target.\<close>

definition history_actual :: table where
  "history_actual =
     \<lparr>columns = [Label (str ''dept''), Period (2023, 2, 1), Period (2024, 1, 1),
                 Period (2024, 2, 1)],
      rows = [[Str (str ''A''), Num 80, Num 50, Num 120],
              [Str (str ''B''), Num 100, Num 200, Missing],
              [Str (str ''C''), Num 10, Num 20, Num 30]]\<rparr>"

definition history_chart :: "achievement list" where
  "history_chart =
     [\<lparr>ar_dept = Str (str ''A''), ar_month = (2023, 2, 1), ar_actual = 80,
       ar_target = 100, ar_rate = 80\<rparr>,
      \<lparr>ar_dept = Str (str ''A''), ar_month = (2024, 1, 1), ar_actual = 50,
       ar_target = 100, ar_rate = 50\<rparr>,
      \<lparr>ar_dept = Str (str ''A''), ar_month = (2024, 2, 1), ar_actual = 120,
       ar_target = 100, ar_rate = 120\<rparr>,
      \<lparr>ar_dept = Str (str ''B''), ar_month = (2023, 2, 1), ar_actual = 100,
       ar_target = 200, ar_rate = 50\<rparr>,
      \<lparr>ar_dept = Str (str ''B''), ar_month = (2024, 1, 1), ar_actual = 200,
       ar_target = 200, ar_rate = 100\<rparr>]"

definition history_A :: summary where
  "history_A =
     \<lparr>ds_dept = Str (str ''A''), latest_rate = Some 120, fy_avg_rate = Some 85,
      six_month_avg_rate = Some 85, ds_comment = Improving, profit_share = 100,
      yoy_comparison = Some (425 / 2)\<rparr>"

definition history_B :: summary where
  "history_B =
     \<lparr>ds_dept = Str (str ''B''), latest_rate = None, fy_avg_rate = Some 100,
      six_month_avg_rate = Some 100, ds_comment = NoComment, profit_share = 0,
      yoy_comparison = Some 200\<rparr>"

definition history_summary :: "summary list" where
  "history_summary = [history_A, history_B]"





text \<open>A target frame whose target value is the text \<^verbatim>\<open>1,000\<close>, and a frame without
  columns (\<^verbatim>\<open>pd.DataFrame()\<close>, which \<^verbatim>\<open>load_data\<close> returns for an empty sheet).\<close>

definition text_target :: table where
  "text_target =
     \<lparr>columns = [Label (str ''dept''), Label (str ''goal'')],
      rows = [[Str (str ''A''), Str (str ''1,000'')]]\<rparr>"

definition no_columns :: table where
  "no_columns = \<lparr>columns = [], rows = []\<rparr>"

text \<open>Two departments with records in the same three months.\<close>

definition quarter_chart :: "achievement list" where
  "quarter_chart =
     [\<lparr>ar_dept = Str (str ''A''), ar_month = (2024, 1, 1), ar_actual = 50,
       ar_target = 100, ar_rate = 50\<rparr>,
      \<lparr>ar_dept = Str (str ''A''), ar_month = (2024, 2, 1), ar_actual = 120,
       ar_target = 100, ar_rate = 120\<rparr>,
      \<lparr>ar_dept = Str (str ''A''), ar_month = (2024, 3, 1), ar_actual = 100,
       ar_target = 100, ar_rate = 100\<rparr>,
      \<lparr>ar_dept = Str (str ''B''), ar_month = (2024, 1, 1), ar_actual = 200,
       ar_target = 200, ar_rate = 100\<rparr>,
      \<lparr>ar_dept = Str (str ''B''), ar_month = (2024, 2, 1), ar_actual = 180,
       ar_target = 200, ar_rate = 90\<rparr>,
      \<lparr>ar_dept = Str (str ''B''), ar_month = (2024, 3, 1), ar_actual = 220,
       ar_target = 200, ar_rate = 110\<rparr>]"

section \<open>Facts about the engine\<close>

subsection \<open>What a successful call returns\<close>

lemma summary_data_Inr:
  "summary_data today mr tp kgs = Inr ss \<Longrightarrow>
   ss = map (\<lambda>kg. summary_row today mr tp (fst kg) (sort_values_asc ar_month (snd kg))) kgs"
proof (induction kgs arbitrary: ss)
  case Nil
  then show ?case by simp
next
  case (Cons kg kgs)
  then show ?case
    by (auto simp: summarise_def Let_def split: sum.splits if_splits)
qed

lemma process_data_Inr:
  assumes "result (process_data tn tf target_df actual_df today) = Inr (ss, chart)"
  shows "(ss = [] \<and> chart = []) \<or>
         (chart \<noteq> [] \<and> ss = sort_values_desc_na_last latest_rate (summary_rows today chart))"
  using assms
  by (auto simp: process_data_def Let_def summary_rows_def
           split: list.splits option.splits if_splits sum.splits dest: summary_data_Inr)

lemma set_sort_values_desc_na_last: "set (sort_values_desc_na_last f xs) = set xs"
  by (auto simp: sort_values_desc_na_last_def)


lemma set_groupby_dept:
  "set (groupby_dept chart) = (\<lambda>k. (k, filter (\<lambda>r. ar_dept r = k) chart)) ` ar_dept ` set chart"
  by (simp add: groupby_dept_def)

lemma summary_rows_member:
  assumes "s \<in> set (summary_rows today chart)"
  shows "\<exists>r \<in> set chart. s = summary_row today (most_recent_month chart)
            (total_recent_profit chart (most_recent_month chart))
            (ar_dept r) (dept_group chart (ar_dept r))"
  using assms by (auto simp: summary_rows_def set_groupby_dept dept_group_def)

lemma summary_member:
  assumes "result (process_data tn tf target_df actual_df today) = Inr (ss, chart)"
    and "s \<in> set ss"
  shows "chart \<noteq> [] \<and> (\<exists>r \<in> set chart. s = summary_row today (most_recent_month chart)
            (total_recent_profit chart (most_recent_month chart))
            (ar_dept r) (dept_group chart (ar_dept r)))"
proof -
  from process_data_Inr[OF assms(1)] assms(2)
  have ne: "chart \<noteq> []" and "s \<in> set (summary_rows today chart)"
    by (auto simp: set_sort_values_desc_na_last)
  with summary_rows_member[of s today chart] show ?thesis by blast
qed

subsection \<open>The fields of a summary row\<close>

lemma ds_dept_summary_row [simp]: "ds_dept (summary_row today mr tp d g) = d"
  by (simp add: summary_row_def Let_def)

lemma latest_rate_summary_row [simp]: "latest_rate (summary_row today mr tp d g) = recent_rate g mr"
  by (simp add: summary_row_def Let_def)

lemma profit_share_summary_row [simp]:
  "profit_share (summary_row today mr tp d g) = (if tp > 0 then recent_actual g mr / tp * 100 else 0)"
  by (simp add: summary_row_def Let_def)

lemma yoy_summary_row [simp]:
  "yoy_comparison (summary_row today mr tp d g) =
     (if last_fy_actual g today mr > 0
      then Some (current_fy_actual g today / last_fy_actual g today mr * 100) else None)"
  by (simp add: summary_row_def Let_def)

subsection \<open>The latest month and the rows of a department in it\<close>

lemma fold_max_eq_Max: "fold max xs (x::timestamp) = Max (set (x # xs))"
  using Max.set_eq_fold[of x xs] by simp

lemma most_recent_month_eq:
  "chart \<noteq> [] \<Longrightarrow> most_recent_month chart = global_latest_period chart"
  by (cases chart) (simp_all add: most_recent_month_def global_latest_period_def fold_max_eq_Max)





subsection \<open>Sums over the rows of a department\<close>

lemma sum_list_map_sort_key:
  "sum_list (map f (sort_key k xs)) = (sum_list (map f xs) :: real)"
proof -
  have "mset (map f (sort_key k xs)) = mset (map f xs)" by simp
  then show ?thesis by (metis sum_mset_sum_list)
qed

lemma sum_dept_group:
  "sum_list (map f (filter P (dept_group chart d))) =
   (sum_list (map f (filter (\<lambda>r. ar_dept r = d \<and> P r) chart)) :: real)"
  by (simp add: dept_group_def sort_values_asc_def filter_sort sum_list_map_sort_key conj_commute)

lemma fy_start_date_spec: "fy_start_date today = spec_fy_start today"
  by (simp add: fy_start_date_def fy_start_year_def spec_fy_start_def)

lemma last_fy_start_date_spec: "last_fy_start_date today = spec_prior_fy_start today"
  by (simp add: last_fy_start_date_def fy_start_year_def spec_prior_fy_start_def spec_fy_start_def year_def)

lemma last_fy_end_month_spec: "last_fy_end_month mr = relativedelta_sub mr 0 12"
  by (simp add: last_fy_end_month_def relativedelta_sub_def)

lemma current_fy_actual_spec:
  "current_fy_actual (dept_group chart d) today = spec_current_fy_actual chart today d"
  by (simp add: current_fy_actual_def fy_df_def spec_current_fy_actual_def sum_dept_group
      fy_start_date_spec)

lemma last_fy_actual_spec:
  "chart \<noteq> [] \<Longrightarrow>
   last_fy_actual (dept_group chart d) today (most_recent_month chart) =
   spec_prior_fy_actual chart today d"
  by (simp add: last_fy_actual_def last_fy_df_def spec_prior_fy_actual_def sum_dept_group
      last_fy_start_date_spec last_fy_end_month_spec most_recent_month_eq)

subsection \<open>The sort of the summary\<close>




subsection \<open>Shares of the profit of the latest month\<close>

lemma summary_rows_Nil [simp]: "summary_rows today [] = []"
  by (simp add: summary_rows_def groupby_dept_def)







subsection \<open>Where the departments of the chart come from\<close>

lemma process_data_chart:
  assumes "result (process_data tn tf target_df actual_df today) = Inr (ss, chart)"
    and "chart \<noteq> []"
  shows "\<exists>tvc. target_value_col (columns target_df) = Some tvc \<and> columns target_df \<noteq> [] \<and>
           columns actual_df \<noteq> [] \<and>
           chart = chart_data tf (coerce_target tn tvc target_df) actual_df (hd (columns target_df))
                     tvc (hd (columns actual_df)) (date_cols actual_df)"
  using assms
  by (auto simp: process_data_def Let_def split: list.splits option.splits if_splits sum.splits)

lemma cell_records_dept:
  "r \<in> set (cell_records tf d tv m c) \<Longrightarrow> ar_dept r = d"
  by (auto simp: cell_records_def split: cell.splits option.splits)

lemma target_row_records_dept:
  "r \<in> set (target_row_records tf t a dct tvc dca dcols row) \<Longrightarrow>
   ar_dept r = row_get (columns t) row dct"
  by (auto simp: target_row_records_def Let_def dest: cell_records_dept
           split: list.splits cell.splits if_splits)

lemma chart_data_dept:
  "r \<in> set (chart_data tf t a dct tvc dca dcols) \<Longrightarrow>
   \<exists>row \<in> set (rows t). ar_dept r = row_get (columns t) row dct"
  by (auto simp: chart_data_def dest: target_row_records_dept)

lemma target_value_col_in_tl:
  "target_value_col cols = Some tvc \<Longrightarrow> tvc \<in> set (tl cols)"
  by (cases cols; cases "tl cols")
     (auto simp: target_value_col_def find_Some_iff split: if_splits option.splits)

lemma row_get_hd_row_set:
  assumes "l \<noteq> dct"
  shows "row_get (dct # tcs) (row_set (dct # tcs) row l v) dct = row_get (dct # tcs) row dct"
  using assms by (cases row) (auto simp: row_get_def row_set_def)

lemma columns_coerce_target [simp]: "columns (coerce_target tn tvc df) = columns df"
  by (simp add: coerce_target_def)

lemma coerce_target_departments:
  assumes "distinct (columns df)" and "target_value_col (columns df) = Some tvc"
  shows "column_values (coerce_target tn tvc df) (hd (columns df)) = column_values df (hd (columns df))"
proof (cases "columns df")
  case Nil
  then show ?thesis using assms(2) by (simp add: target_value_col_def)
next
  case (Cons dct tcs)
  with target_value_col_in_tl[OF assms(2)] assms(1) have "tvc \<noteq> dct" by auto
  then show ?thesis
    using Cons by (simp add: coerce_target_def column_values_def row_get_hd_row_set)
qed

subsection \<open>The coercion of the target column\<close>

lemma row_get_row_set_same:
  "row_get cols (row_set cols row l v) l
     = (if l \<in> fst ` set (zip cols row) then v else Missing)"
proof (induction cols arbitrary: row)
  case Nil
  then show ?case by (simp add: row_get_def row_set_def)
next
  case (Cons c cols)
  show ?case
  proof (cases row)
    case Nil
    then show ?thesis by (simp add: row_get_def row_set_def)
  next
    case (Cons x xs)
    then show ?thesis
      using Cons.IH[of xs] by (auto simp: row_get_def row_set_def)
  qed
qed

lemma row_get_absent:
  "l \<notin> fst ` set (zip cols row) \<Longrightarrow> row_get cols row l = Missing"
  by (simp add: row_get_def map_of_eq_None_iff[THEN iffD2])

lemma row_get_coerced:
  "row_get cols (row_set cols row l (coerce_cell tn (row_get cols row l))) l
     = coerce_cell tn (row_get cols row l)"
  by (simp add: row_get_row_set_same row_get_absent)

lemma coerce_cell_not_text [simp]: "is_text (coerce_cell tn c) = False"
  by (cases c) (auto split: option.splits)

lemma is_numeric_coerced:
  "is_numeric_dtype (column_values (coerce_target tn tvc df) tvc)"
  by (auto simp: coerce_target_def is_numeric_dtype_def column_values_def filter_empty_conv
      row_get_coerced)

lemma coerce_target_idem:
  "coerce_target tn tvc (coerce_target tn tvc df) = coerce_target tn tvc df"
  using is_numeric_coerced[of tn tvc df] by (subst coerce_target_def) simp

subsection \<open>The frames after a call\<close>

lemma actual_after_process_data [simp]:
  "actual_after (process_data tn tf target_df actual_df today) = actual_df"
  by (simp add: process_data_def Let_def split: list.splits option.splits)

lemma target_after_process_data:
  "target_after (process_data tn tf target_df actual_df today)
       = (if columns actual_df = [] then target_df
          else case target_value_col (columns target_df) of
                 None \<Rightarrow> target_df
               | Some tvc \<Rightarrow> coerce_target tn tvc target_df)"
  by (simp add: process_data_def Let_def target_value_col_def split: list.splits option.splits)

lemma process_data_coerced:
  assumes "target_value_col (columns target_df) = Some tvc" and "columns actual_df \<noteq> []"
  shows "process_data tn tf (coerce_target tn tvc target_df) actual_df today
         = process_data tn tf target_df actual_df today"
proof -
  from assms(1) have "columns target_df \<noteq> []"
    by (auto simp: target_value_col_def)
  with assms show ?thesis
    by (simp add: process_data_def coerce_target_idem split: list.splits)
qed

lemma assign_month_id [simp]: "assign_month chart = chart"
  by (simp add: assign_month_def to_datetime_def)

section \<open>The concrete inputs, evaluated\<close>

lemma process_data_eval:
  assumes "columns target_df = dct # tcs" and "columns actual_df = dca # acs"
    and "target_value_col (dct # tcs) = Some tvc"
    and "coerce_target tn tvc target_df = t'"
    and "date_cols actual_df = dcols" and "dcols \<noteq> []"
    and "chart_data tf t' actual_df dct tvc dca dcols = chart" and "chart \<noteq> []"
    and "most_recent_month chart = mr" and "total_recent_profit chart mr = tp"
    and "summary_data today mr tp (groupby_dept chart) = Inr ss0"
    and "sort_values_desc_na_last latest_rate ss0 = ss"
  shows "process_data tn tf target_df actual_df today =
           \<lparr>target_after = t', actual_after = actual_df, result = Inr (ss, chart)\<rparr>"
  using assms unfolding process_data_def Let_def by simp

lemmas table_defs = coerce_target_def is_numeric_dtype_def column_values_def
  row_get_def row_set_def chart_data_def target_row_records_def cell_records_def
  strip_separators_def str_def

lemmas summary_defs = sort_values_asc_def mean_def recent_rate_row_def recent_rate_def
  recent_actual_def fy_start_year_def fy_start_date_def fy_df_def six_month_df_def
  last_fy_start_date_def last_fy_end_month_def current_fy_actual_def last_fy_df_def
  last_fy_actual_def evaluation_def summary_row_def summarise_def relativedelta_sub_def
  days_in_month_def is_leap_def year_def month_def day_def str_def

lemma goal_header:
  "target_value_col [Label (str ''dept''), Label (str ''goal'')] = Some (Label (str ''goal''))"
  by (simp add: target_value_col_def kw_mokuhyou_def kw_target_def kw_goal_def lower_def
      lower_cp_def str_def)

subsection \<open>The scenario of the specification\<close>

lemma scenario_chart_data:
  "chart_data tf scenario_target scenario_actual (Label (str ''dept'')) (Label (str ''goal''))
     (Label (str ''dept'')) [(2024, 1, 1), (2024, 2, 1)] = scenario_chart"
  by (simp add: scenario_target_def scenario_actual_def scenario_chart_def table_defs Let_def)

lemma scenario_groups:
  "groupby_dept scenario_chart
     = [(Str (str ''A''), take 2 scenario_chart), (Str (str ''B''), drop 2 scenario_chart)]"
  by (simp add: scenario_chart_def groupby_dept_def str_def)

lemma scenario_date_cols: "date_cols scenario_actual = [(2024, 1, 1), (2024, 2, 1)]"
  by (simp add: scenario_actual_def date_cols_def List.map_filter_simps year_def month_def)

lemma scenario_coerce: "coerce_target tn (Label (str ''goal'')) scenario_target = scenario_target"
  by (simp add: scenario_target_def table_defs)

lemma scenario_most_recent: "most_recent_month scenario_chart = (2024, 2, 1)"
  by (simp add: scenario_chart_def most_recent_month_def)

lemma scenario_total: "total_recent_profit scenario_chart (2024, 2, 1) = 300"
  by (simp add: scenario_chart_def total_recent_profit_def)

lemma scenario_summary_data:
  "summary_data (2024, 3, 1) (2024, 2, 1) 300 (groupby_dept scenario_chart) = Inr scenario_summary"
  unfolding scenario_groups
  by (simp add: scenario_chart_def scenario_summary_def summary_A_def summary_B_def
      summary_defs Let_def)

lemma scenario_sorted: "sort_values_desc_na_last latest_rate scenario_summary = scenario_summary"
  by (simp add: scenario_summary_def summary_A_def summary_B_def sort_values_desc_na_last_def)

lemma scenario_run:
  "process_data tn tf scenario_target scenario_actual (2024, 3, 1)
     = \<lparr>target_after = scenario_target, actual_after = scenario_actual,
        result = Inr (scenario_summary, scenario_chart)\<rparr>"
proof -
  have c: "columns scenario_target = [Label (str ''dept''), Label (str ''goal'')]"
    and a: "columns scenario_actual
              = [Label (str ''dept''), Period (2024, 1, 1), Period (2024, 2, 1)]"
    by (simp_all add: scenario_target_def scenario_actual_def)
  have ne: "scenario_chart \<noteq> []" by (simp add: scenario_chart_def)
  show ?thesis
    by (rule process_data_eval[OF c a goal_header scenario_coerce scenario_date_cols _
          scenario_chart_data ne scenario_most_recent scenario_total scenario_summary_data
          scenario_sorted]) simp
qed

subsection \<open>The run with a month of the year before\<close>

lemma history_chart_data:
  "chart_data tf scenario_target history_actual (Label (str ''dept'')) (Label (str ''goal''))
     (Label (str ''dept'')) [(2023, 2, 1), (2024, 1, 1), (2024, 2, 1)] = history_chart"
  by (simp add: scenario_target_def history_actual_def history_chart_def table_defs Let_def)

lemma history_groups:
  "groupby_dept history_chart
     = [(Str (str ''A''), take 3 history_chart), (Str (str ''B''), drop 3 history_chart)]"
  by (simp add: history_chart_def groupby_dept_def str_def)

lemma history_date_cols: "date_cols history_actual = [(2023, 2, 1), (2024, 1, 1), (2024, 2, 1)]"
  by (simp add: history_actual_def date_cols_def List.map_filter_simps year_def month_def)

lemma history_most_recent: "most_recent_month history_chart = (2024, 2, 1)"
  by (simp add: history_chart_def most_recent_month_def)

lemma history_total: "total_recent_profit history_chart (2024, 2, 1) = 120"
  by (simp add: history_chart_def total_recent_profit_def)

lemma history_summary_data:
  "summary_data (2024, 3, 1) (2024, 2, 1) 120 (groupby_dept history_chart) = Inr history_summary"
  unfolding history_groups
  by (simp add: history_chart_def history_summary_def history_A_def history_B_def
      summary_defs Let_def)

lemma history_sorted: "sort_values_desc_na_last latest_rate history_summary = history_summary"
  by (simp add: history_summary_def history_A_def history_B_def sort_values_desc_na_last_def)

lemma history_run:
  "process_data tn tf scenario_target history_actual (2024, 3, 1)
     = \<lparr>target_after = scenario_target, actual_after = history_actual,
        result = Inr (history_summary, history_chart)\<rparr>"
proof -
  have c: "columns scenario_target = [Label (str ''dept''), Label (str ''goal'')]"
    and a: "columns history_actual
              = [Label (str ''dept''), Period (2023, 2, 1), Period (2024, 1, 1),
                 Period (2024, 2, 1)]"
    by (simp_all add: scenario_target_def history_actual_def)
  have ne: "history_chart \<noteq> []" by (simp add: history_chart_def)
  show ?thesis
    by (rule process_data_eval[OF c a goal_header scenario_coerce history_date_cols _
          history_chart_data ne history_most_recent history_total history_summary_data
          history_sorted]) simp
qed

subsection \<open>The target frame with a repeated department\<close>










subsection \<open>Results and latest periods\<close>

lemma history_result:
  "result (process_data tn tf scenario_target history_actual (2024, 3, 1))
     = Inr (history_summary, history_chart)"
  by (simp add: history_run)



lemma history_latest: "global_latest_period history_chart = (2024, 2, 1)"
  using most_recent_month_eq[of history_chart] history_most_recent
  by (simp add: history_chart_def)



subsection \<open>The structural failures on frames that have a column\<close>

lemma structural_failures_return_empty:
  assumes "columns target_df \<noteq> []" and "columns actual_df \<noteq> []"
    and "length (columns target_df) < 2 \<or> date_cols actual_df = []
         \<or> (\<exists>tvc. target_value_col (columns target_df) = Some tvc \<and>
              chart_data tf (coerce_target tn tvc target_df) actual_df (hd (columns target_df))
                tvc (hd (columns actual_df)) (date_cols actual_df) = [])"
  shows "result (process_data tn tf target_df actual_df today) = Inr ([], [])"
  using assms
  by (auto simp: process_data_def Let_def target_value_col_def split: list.splits option.splits)

section \<open>The claims\<close>

text \<open>
  C1. For the targets A = 100 and B = 200, the actuals A = 50, 120 and B = 200, 180 in
  2024-01 and 2024-02 and today = 2024-03-01, \<^verbatim>\<open>process_data\<close> returns exactly four
  achievement records, A/2024-01 with rate 50, A/2024-02 with rate 120, B/2024-01 with
  rate 100 and B/2024-02 with rate 90, and the summary has A with latest rate 120 before
  B with latest rate 90. The result does not depend on the two parsers.
\<close>

theorem scenario_records_and_summary:
  "result (process_data tn tf scenario_target scenario_actual (2024, 3, 1))
     = Inr (scenario_summary, scenario_chart)
   \<and> map (\<lambda>r. (ar_dept r, ar_month r, ar_rate r)) scenario_chart
       = [(Str (str ''A''), (2024, 1, 1), 50), (Str (str ''A''), (2024, 2, 1), 120),
          (Str (str ''B''), (2024, 1, 1), 100), (Str (str ''B''), (2024, 2, 1), 90)]
   \<and> map (\<lambda>s. (ds_dept s, latest_rate s)) scenario_summary
       = [(Str (str ''A''), Some 120), (Str (str ''B''), Some 90)]"
  by (simp add: scenario_run scenario_chart_def scenario_summary_def summary_A_def summary_B_def)



text \<open>
  C3. For every department of the summary: the fiscal year starts on April 1 of the year of
  \<open>today\<close> when its month is April or later and of the year before otherwise; the
  current actual value is the sum over the records of the department from that day on;
  the prior actual value is the sum over its records from April 1 of the year before the
  fiscal year up to the latest period minus twelve months; and the year-over-year ratio
  is current / prior * 100 when the prior value is positive and missing otherwise.
\<close>

theorem fiscal_year_windows:
  assumes "result (process_data tn tf target_df actual_df today) = Inr (summary_df, chart_df)"
    and "s \<in> set summary_df"
  shows "fy_start_date today = spec_fy_start today
       \<and> current_fy_actual (dept_group chart_df (ds_dept s)) today
           = spec_current_fy_actual chart_df today (ds_dept s)
       \<and> last_fy_actual (dept_group chart_df (ds_dept s)) today (most_recent_month chart_df)
           = spec_prior_fy_actual chart_df today (ds_dept s)
       \<and> yoy_comparison s = spec_yoy chart_df today (ds_dept s)"
proof -
  from summary_member[OF assms] obtain r where ne: "chart_df \<noteq> []"
    and "r \<in> set chart_df" and s: "s = summary_row today (most_recent_month chart_df)
            (total_recent_profit chart_df (most_recent_month chart_df))
            (ar_dept r) (dept_group chart_df (ar_dept r))"
    by blast
  show ?thesis
    unfolding s
    by (simp add: fy_start_date_spec current_fy_actual_spec last_fy_actual_spec[OF ne] spec_yoy_def)
qed

theorem fiscal_year_windows_witness:
  "result (process_data plain_number plain_number scenario_target history_actual (2024, 3, 1))
     = Inr (history_summary, history_chart)
   \<and> history_A \<in> set history_summary
   \<and> fy_start_date (2024, 3, 1) = (2023, 4, 1)
   \<and> spec_fy_start (2024, 3, 1) = (2023, 4, 1)
   \<and> spec_current_fy_actual history_chart (2024, 3, 1) (ds_dept history_A) = 170
   \<and> current_fy_actual (dept_group history_chart (ds_dept history_A)) (2024, 3, 1) = 170
   \<and> spec_prior_fy_actual history_chart (2024, 3, 1) (ds_dept history_A) = 80
   \<and> last_fy_actual (dept_group history_chart (ds_dept history_A)) (2024, 3, 1)
        (most_recent_month history_chart) = 80
   \<and> spec_yoy history_chart (2024, 3, 1) (ds_dept history_A) = Some (425 / 2)
   \<and> yoy_comparison history_A = Some (425 / 2)"
proof -
  have m: "history_A \<in> set history_summary"
    by (simp add: history_summary_def)
  have f: "spec_fy_start (2024, 3, 1) = (2023, 4, 1)"
    by (simp add: spec_fy_start_def month_def year_def)
  have c: "spec_current_fy_actual history_chart (2024, 3, 1) (ds_dept history_A) = 170"
    by (simp add: spec_current_fy_actual_def f history_chart_def history_A_def str_def)
  have p: "spec_prior_fy_actual history_chart (2024, 3, 1) (ds_dept history_A) = 80"
    unfolding spec_prior_fy_actual_def history_latest
    by (simp add: spec_prior_fy_start_def f
        relativedelta_sub_def days_in_month_def is_leap_def year_def month_def day_def
        history_chart_def history_A_def str_def)
  have y: "spec_yoy history_chart (2024, 3, 1) (ds_dept history_A) = Some (425 / 2)"
    by (simp add: spec_yoy_def c p)
  note r = history_result[of plain_number plain_number]
  from fiscal_year_windows[OF r m] f c p y
  show ?thesis using r m by simp
qed

text \<open>
  C4. The claim has \<^verbatim>\<open>process_data\<close> return the pair of empty frames, without an
  exception, whenever the target frame has fewer than two columns. The code reads
  \<^verbatim>\<open>target_df.columns[0]\<close> (line 82) before the check of line 92, so a target frame
  without any column raises \<^verbatim>\<open>IndexError\<close>; so does an actual frame without any column
  (line 83).
\<close>

theorem no_columns_raises:
  "result (process_data tn tf no_columns scenario_actual (2024, 3, 1)) = Inl IndexError"
  by (simp add: process_data_def no_columns_def)

text \<open>
  C5, as stated: no stage changes a frame it is given. Lines 113-118 assign the coerced
  target column into the frame of the caller: a target value given as the text
  \<^verbatim>\<open>1,000\<close> is the number 1000 in the caller's frame after the call.
\<close>

theorem target_frame_mutated:
  "target_after (process_data plain_number plain_number text_target scenario_actual (2024, 3, 1))
     \<noteq> text_target"
proof -
  have c: "columns text_target = [Label (str ''dept''), Label (str ''goal'')]"
    and a: "columns scenario_actual \<noteq> []"
    by (simp_all add: text_target_def scenario_actual_def)
  have "coerce_target plain_number (Label (str ''goal'')) text_target
          = text_target\<lparr>rows := [[Str (str ''A''), Num 1000]]\<rparr>"
    by (simp add: text_target_def table_defs plain_number_def)
  then have "target_after (process_data plain_number plain_number text_target scenario_actual
                 (2024, 3, 1)) = text_target\<lparr>rows := [[Str (str ''A''), Num 1000]]\<rparr>"
    by (simp add: target_after_process_data a c goal_header)
  then show ?thesis by (simp add: text_target_def)
qed

text \<open>
  C5, amended: \<^verbatim>\<open>process_data\<close> leaves the actual frame as it is, and the target frame
  as it is except for the coercion of the selected target column (\<open>coerce_target\<close>,
  which is the identity when that column holds no text, and which is not reached when
  one of the frames has no column or the target frame has fewer than two);
  \<^verbatim>\<open>export_metrics_csv\<close> leaves the summary as it is and assigns to the month column
  of the chart the timestamps it already holds.
\<close>

theorem input_frames_after:
  "actual_after (process_data tn tf target_df actual_df today) = actual_df
   \<and> target_after (process_data tn tf target_df actual_df today)
       = (if columns actual_df = [] then target_df
          else case target_value_col (columns target_df) of
                 None \<Rightarrow> target_df
               | Some tvc \<Rightarrow> coerce_target tn tvc target_df)
   \<and> summary_after (export_metrics_csv summary_df chart_df analysis_date) = summary_df
   \<and> chart_after (export_metrics_csv summary_df chart_df analysis_date) = chart_df"
  by (simp add: target_after_process_data export_metrics_csv_def calculate_period_def
      calculate_trend_metrics_def Let_def)






text \<open>
  C8. The claim has the stability metric computed over the records of the three most
  recent distinct periods. \<^verbatim>\<open>nlargest(3)\<close> counts a month once for every record in it:
  with two departments reporting in January, February and March the three largest values
  are March, March and February, so the metric is computed over the four records of
  February and March instead of all six.
\<close>

theorem latest_3_months_counts_repeats:
  "latest_3_months quarter_chart = (2024, 2, 1)
   \<and> map ar_month (recent_data quarter_chart)
       = [(2024, 2, 1), (2024, 3, 1), (2024, 2, 1), (2024, 3, 1)]
   \<and> latest_distinct_periods 3 quarter_chart = [(2024, 3, 1), (2024, 2, 1), (2024, 1, 1)]
   \<and> records_in_latest_periods quarter_chart = quarter_chart
   \<and> recent_data quarter_chart \<noteq> records_in_latest_periods quarter_chart"
proof -
  have l: "latest_3_months quarter_chart = (2024, 2, 1)"
    by (simp add: latest_3_months_def quarter_chart_def nlargest_def)
  have r: "map ar_month (recent_data quarter_chart)
       = [(2024, 2, 1), (2024, 3, 1), (2024, 2, 1), (2024, 3, 1)]"
    by (simp add: recent_data_def l) (simp add: quarter_chart_def)
  have d: "latest_distinct_periods 3 quarter_chart = [(2024, 3, 1), (2024, 2, 1), (2024, 1, 1)]"
    by (simp add: latest_distinct_periods_def quarter_chart_def)
  have s: "records_in_latest_periods quarter_chart = quarter_chart"
    by (simp add: records_in_latest_periods_def d) (simp add: quarter_chart_def)
  have "length (recent_data quarter_chart) = 4"
    using arg_cong[OF r, of length] by simp
  moreover have "length (records_in_latest_periods quarter_chart) = 6"
    by (simp add: s) (simp add: quarter_chart_def)
  ultimately have "recent_data quarter_chart \<noteq> records_in_latest_periods quarter_chart"
    by auto
  with l r d s show ?thesis by simp
qed

text \<open>
  C9. A second call of \<^verbatim>\<open>process_data\<close> on the same frames, as the first call left them,
  and with the same \<open>today\<close> returns what the first call returned and leaves the
  frames as they are: the result is a function of the two frames and \<open>today\<close>, and the
  one write of the first call (the coerced target column) does not change it.
\<close>

theorem process_data_idempotent:
  "process_data tn tf (target_after (process_data tn tf target_df actual_df today))
       (actual_after (process_data tn tf target_df actual_df today)) today
   = process_data tn tf target_df actual_df today"
proof (cases "target_value_col (columns target_df)")
  case None
  then show ?thesis by (simp add: target_after_process_data)
next
  case (Some tvc)
  then show ?thesis
    by (cases "columns actual_df = []") (simp_all add: target_after_process_data process_data_coerced)
qed

text \<open>
  C10. A department name that is in no row of the first column of the target frame is the
  department of no achievement record and of no summary row, whether or not the actual
  frame has a row for it. The column labels of the target frame are distinct.
\<close>

theorem actual_only_departments_excluded:
  assumes "result (process_data tn tf target_df actual_df today) = Inr (summary_df, chart_df)"
    and "distinct (columns target_df)"
    and "d \<notin> set (target_departments target_df)"
  shows "d \<notin> ar_dept ` set chart_df \<and> d \<notin> ds_dept ` set summary_df"
proof -
  have chart: "ar_dept r \<in> set (target_departments target_df)" if r: "r \<in> set chart_df" for r
  proof -
    from r have ne: "chart_df \<noteq> []" by auto
    from process_data_chart[OF assms(1) ne] obtain tvc where
      tvc: "target_value_col (columns target_df) = Some tvc" and
      c: "chart_df = chart_data tf (coerce_target tn tvc target_df) actual_df
             (hd (columns target_df)) tvc (hd (columns actual_df)) (date_cols actual_df)"
      by blast
    from r c have "r \<in> set (chart_data tf (coerce_target tn tvc target_df) actual_df
             (hd (columns target_df)) tvc (hd (columns actual_df)) (date_cols actual_df))"
      by simp
    from chart_data_dept[OF this]
    obtain row where "row \<in> set (rows (coerce_target tn tvc target_df))"
      and "ar_dept r = row_get (columns target_df) row (hd (columns target_df))"
      by auto
    then have "ar_dept r \<in> set (column_values (coerce_target tn tvc target_df) (hd (columns target_df)))"
      by (auto simp: column_values_def)
    then show ?thesis
      by (simp add: coerce_target_departments[OF assms(2) tvc] target_departments_def)
  qed
  have summ: "ds_dept s \<in> set (target_departments target_df)" if s: "s \<in> set summary_df" for s
  proof -
    from summary_member[OF assms(1) s] obtain r where "r \<in> set chart_df" and "ds_dept s = ar_dept r"
      by auto
    then show ?thesis using chart[of r] by simp
  qed
  have "d \<notin> ar_dept ` set chart_df"
  proof
    assume "d \<in> ar_dept ` set chart_df"
    then obtain r where "r \<in> set chart_df" and "d = ar_dept r" by auto
    with chart[of r] assms(3) show False by simp
  qed
  moreover have "d \<notin> ds_dept ` set summary_df"
  proof
    assume "d \<in> ds_dept ` set summary_df"
    then obtain s where "s \<in> set summary_df" and "d = ds_dept s" by auto
    with summ[of s] assms(3) show False by simp
  qed
  ultimately show ?thesis by simp
qed

theorem actual_only_departments_excluded_witness:
  "result (process_data plain_number plain_number scenario_target history_actual (2024, 3, 1))
     = Inr (history_summary, history_chart)
   \<and> distinct (columns scenario_target)
   \<and> Str (str ''C'') \<in> set (column_values history_actual (hd (columns history_actual)))
   \<and> Str (str ''C'') \<notin> set (target_departments scenario_target)
   \<and> Str (str ''C'') \<notin> ar_dept ` set history_chart
   \<and> Str (str ''C'') \<notin> ds_dept ` set history_summary"
proof -
  have d: "distinct (columns scenario_target)"
    by (simp add: scenario_target_def str_def)
  have a: "Str (str ''C'') \<in> set (column_values history_actual (hd (columns history_actual)))"
    by (simp add: history_actual_def column_values_def row_get_def)
  have n: "Str (str ''C'') \<notin> set (target_departments scenario_target)"
    by (simp add: target_departments_def scenario_target_def column_values_def row_get_def str_def)
  note r = history_result[of plain_number plain_number]
  from actual_only_departments_excluded[OF r d n]
  show ?thesis using r d a n by simp
qed

end
